theory Spec2Isabelle
  imports Main
begin

section \<open>The statefuld registry: data model\<close>

text \<open>
  The embedding follows the service class \<^verbatim>\<open>statefuld\<close> and its \<^verbatim>\<open>ClassNode\<close>.
  Modelling conventions:
  \<^item> a JavaScript value is a \<open>jsval\<close>; numbers are integers here, since the registry stores
    and compares values opaquely and never computes with them;
  \<^item> an object is its runtime type name (\<^verbatim>\<open>obj.constructor.name\<close>, always a string for an
    object built by a function or class) and the properties that \<^verbatim>\<open>obj[p]\<close> reads, as a
    partial map; reading a missing property gives \<open>JUndefined\<close>; members inherited from
    the prototype are not modelled, so tracked and key property names are taken not to
    name one;
  \<^item> a JavaScript \<^verbatim>\<open>Map\<close> is a partial map; a JavaScript \<^verbatim>\<open>Set\<close> of strings is the list
    of its members in insertion order;
  \<^item> the static fields \<^verbatim>\<open>storage\<close> and \<^verbatim>\<open>currentBranch\<close> form the record \<open>registry\<close>,
    passed to every operation and returned by it;
  \<^item> a \<^verbatim>\<open>TypeError\<close> raised by the JavaScript runtime is the value \<open>Inl TypeError\<close>;
  \<^item> console output is not modelled.
  Arguments are objects as their declared types say: a payload or target that is itself
  \<^verbatim>\<open>null\<close> or \<^verbatim>\<open>undefined\<close>, accessor properties and frozen objects are outside the model.
\<close>

datatype jsval = JUndefined | JNull | JBool bool | JNum int | JStr string

datatype error = TypeError

record jsobj =
  ctor_name :: string
  props :: "string \<rightharpoonup> jsval"

text \<open>\<^verbatim>\<open>obj[p]\<close> as an expression, and the assignment \<^verbatim>\<open>obj[p] = v\<close>.\<close>

definition get_prop :: "jsobj \<Rightarrow> string \<Rightarrow> jsval" where
  "get_prop obj p = (case props obj p of None \<Rightarrow> JUndefined | Some v \<Rightarrow> v)"

definition set_prop :: "jsobj \<Rightarrow> string \<Rightarrow> jsval \<Rightarrow> jsobj" where
  "set_prop obj p v = obj\<lparr>props := (props obj)(p \<mapsto> v)\<rparr>"

type_synonym InstanceProps = "string \<rightharpoonup> jsval"

text \<open>
  The instance map is declared with string keys, but its key is whatever value the key
  property of the object holds at run time, so the model keys it by \<open>jsval\<close>.
\<close>

type_synonym SetOfInstances = "jsval \<rightharpoonup> InstanceProps"

type_synonym Branches = "string \<rightharpoonup> SetOfInstances"

type_synonym FnGetSourceInstanceByKey = "string \<Rightarrow> jsobj"

record ClassNode =
  dProps :: "string list"
  branchNodes :: Branches
  keyProp :: string
  fnGetSourceInstanceByKey :: "FnGetSourceInstanceByKey option"

type_synonym Store = "string \<rightharpoonup> ClassNode"

record registry =
  storage :: Store
  currentBranch :: string

text \<open>The static initialisers: an empty store, current branch \<^verbatim>\<open>'*'\<close>.\<close>

definition initial_registry :: registry where
  "initial_registry = \<lparr>storage = Map.empty, currentBranch = ''*''\<rparr>"

subsection \<open>ClassNode\<close>

text \<open>The constructor: \<^verbatim>\<open>keyProp\<close> defaults to \<^verbatim>\<open>'id'\<close>.\<close>

definition new_ClassNode ::
  "string list \<Rightarrow> Branches \<Rightarrow> string option \<Rightarrow> FnGetSourceInstanceByKey option \<Rightarrow> ClassNode" where
  "new_ClassNode dps brs kp fn =
     \<lparr>dProps = dps, branchNodes = brs,
      keyProp = (case kp of Some k \<Rightarrow> k | None \<Rightarrow> ''id''),
      fnGetSourceInstanceByKey = fn\<rparr>"

text \<open>
  \<^verbatim>\<open>getInstance\<close> and \<^verbatim>\<open>setInstance\<close> read the branch that \<^verbatim>\<open>getCurrentBranch()\<close> names, here
  the argument \<open>cur\<close>. Both call a method on \<^verbatim>\<open>branchNodes.get(cur)\<close>, which is a
  \<^verbatim>\<open>TypeError\<close> when the branch is missing.
\<close>

definition getInstance :: "ClassNode \<Rightarrow> string \<Rightarrow> jsval \<Rightarrow> error + InstanceProps option" where
  "getInstance node cur i =
     (case branchNodes node cur of
        None \<Rightarrow> Inl TypeError
      | Some insts \<Rightarrow> Inr (insts i))"

definition setInstance :: "ClassNode \<Rightarrow> string \<Rightarrow> jsval \<Rightarrow> InstanceProps \<Rightarrow> error + ClassNode" where
  "setInstance node cur i m =
     (case branchNodes node cur of
        None \<Rightarrow> Inl TypeError
      | Some insts \<Rightarrow> Inr (node\<lparr>branchNodes := (branchNodes node)(cur \<mapsto> insts(i \<mapsto> m))\<rparr>))"

subsection \<open>registerClass\<close>

text \<open>
  The first argument is a class name or an object whose runtime type name is taken; the
  second is \<^verbatim>\<open>undefined\<close>, an array of names or a \<^verbatim>\<open>Set\<close> of names.
\<close>

datatype subject = ClassName string | Instance jsobj

datatype dprops_arg = DUndefined | DArray "string list" | DSet "string list"

text \<open>\<^verbatim>\<open>new Set(array)\<close>: members in order of first occurrence.\<close>

definition set_add :: "string list \<Rightarrow> string \<Rightarrow> string list" where
  "set_add s x = (if x \<in> set s then s else s @ [x])"

definition new_Set :: "string list \<Rightarrow> string list" where
  "new_Set xs = foldl set_add [] xs"

text \<open>
  The test \<^verbatim>\<open>dProps === undefined || dProps[0] === undefined\<close>. An array of strings has
  an element \<^verbatim>\<open>0\<close> exactly when it is not empty; a \<^verbatim>\<open>Set\<close> has no indexed elements, so
  \<^verbatim>\<open>dProps[0]\<close> is \<^verbatim>\<open>undefined\<close> for every \<^verbatim>\<open>Set\<close>.
\<close>

fun dProps_unspecified :: "dprops_arg \<Rightarrow> bool" where
  "dProps_unspecified DUndefined = True"
| "dProps_unspecified (DArray xs) = (xs = [])"
| "dProps_unspecified (DSet xs) = True"

definition registerClass ::
  "subject \<Rightarrow> dprops_arg \<Rightarrow> string option \<Rightarrow> FnGetSourceInstanceByKey option \<Rightarrow> registry
     \<Rightarrow> bool \<times> registry" where
  "registerClass subjectClass dps kp fn s =
     (let className = (case subjectClass of Instance obj \<Rightarrow> ctor_name obj | ClassName c \<Rightarrow> c) in
      if storage s className \<noteq> None then (False, s)
      else if dProps_unspecified dps then (False, s)
      else
        let classNode =
              new_ClassNode (case dps of DArray xs \<Rightarrow> new_Set xs | DSet xs \<Rightarrow> xs | DUndefined \<Rightarrow> [])
                Map.empty kp fn
        in (True, s\<lparr>storage := (storage s)(className \<mapsto> classNode)\<rparr>))"

subsection \<open>switch\<close>

text \<open>
  The call without an argument re-enters the function once, with \<^verbatim>\<open>'*'\<close>; the call with an
  argument does not recurse.
\<close>

function switch :: "string option \<Rightarrow> registry \<Rightarrow> bool \<times> registry" where
  "switch None s =
     (if currentBranch s = ''*'' then (True, s) else switch (Some ''*'') s)"
| "switch (Some branch) s =
     (if branch = currentBranch s then (True, s)
      else (True, s\<lparr>currentBranch := branch\<rparr>))"
  by pat_completeness auto
termination
  by (relation "measure (\<lambda>(b, s). case b of None \<Rightarrow> Suc 0 | Some _ \<Rightarrow> 0)") auto

subsection \<open>reassign and stash\<close>

text \<open>
  The class name and the instance id of a call, as both operations compute them:
  \<^verbatim>\<open>forcedClassName === undefined ? obj.constructor.name : forcedClassName\<close> and
  \<^verbatim>\<open>forcedId === undefined ? obj[classNode.keyProp] : forcedId\<close>. The class name is a
  string in both cases, so of the test \<^verbatim>\<open>className === undefined || !storage.has(className)\<close>
  only the second part can hold.
\<close>

definition className_of :: "jsobj \<Rightarrow> string option \<Rightarrow> string" where
  "className_of obj forcedClassName =
     (case forcedClassName of None \<Rightarrow> ctor_name obj | Some c \<Rightarrow> c)"

definition id_of :: "ClassNode \<Rightarrow> jsobj \<Rightarrow> string option \<Rightarrow> jsval" where
  "id_of classNode obj forcedId =
     (case forcedId of None \<Rightarrow> get_prop obj (keyProp classNode) | Some i \<Rightarrow> JStr i)"

text \<open>
  The loop of reassign,
  \<^verbatim>\<open>dProps.forEach(prop => instance.has(prop) && (targetObj[prop] = instance.get(prop)))\<close>.
  A call of \<^verbatim>\<open>has\<close> on an undefined instance is a \<^verbatim>\<open>TypeError\<close>.
\<close>

fun reassign_props :: "string list \<Rightarrow> InstanceProps option \<Rightarrow> jsobj \<Rightarrow> error + jsobj" where
  "reassign_props [] inst targetObj = Inr targetObj"
| "reassign_props (prop # ps) None targetObj = Inl TypeError"
| "reassign_props (prop # ps) (Some m) targetObj =
     reassign_props ps (Some m)
       (case m prop of Some v \<Rightarrow> set_prop targetObj prop v | None \<Rightarrow> targetObj)"

definition reassign ::
  "jsobj \<Rightarrow> string option \<Rightarrow> string option \<Rightarrow> registry \<Rightarrow> error + (bool \<times> jsobj \<times> registry)" where
  "reassign targetObj forcedClassName forcedId s =
     (let className = className_of targetObj forcedClassName in
      case storage s className of
        None \<Rightarrow> Inr (False, targetObj, s)
      | Some classNode \<Rightarrow>
          let i = id_of classNode targetObj forcedId in
          if i = JUndefined then Inr (False, targetObj, s)
          else if branchNodes classNode (currentBranch s) = None then Inr (False, targetObj, s)
          else
            (case getInstance classNode (currentBranch s) i of
               Inl e \<Rightarrow> Inl e
             | Inr None \<Rightarrow> Inr (False, targetObj, s)
             | Inr (Some _) \<Rightarrow>
                 (case getInstance classNode (currentBranch s) i of
                    Inl e \<Rightarrow> Inl e
                  | Inr instance \<Rightarrow>
                      (case reassign_props (dProps classNode) instance targetObj of
                         Inl e \<Rightarrow> Inl e
                       | Inr targetObj' \<Rightarrow> Inr (True, targetObj', s)))))"

text \<open>
  The loop of stash,
  \<^verbatim>\<open>dProps.forEach(prop => payloadObj[prop] !== undefined && instance.set(prop, payloadObj[prop]))\<close>,
  on the property map of the instance. A call of \<^verbatim>\<open>set\<close> on an undefined instance is a
  \<^verbatim>\<open>TypeError\<close>.
\<close>

fun stash_props :: "string list \<Rightarrow> jsobj \<Rightarrow> InstanceProps option \<Rightarrow> error + InstanceProps option" where
  "stash_props [] payloadObj inst = Inr inst"
| "stash_props (prop # ps) payloadObj None =
     (if get_prop payloadObj prop \<noteq> JUndefined then Inl TypeError
      else stash_props ps payloadObj None)"
| "stash_props (prop # ps) payloadObj (Some m) =
     stash_props ps payloadObj
       (Some (if get_prop payloadObj prop \<noteq> JUndefined
              then m(prop \<mapsto> get_prop payloadObj prop) else m))"

text \<open>
  The instance that the loop mutates is the map held in the branch, so the mutation is
  written back into the class node, and the class node into the store.
\<close>

definition put_instance :: "ClassNode \<Rightarrow> string \<Rightarrow> jsval \<Rightarrow> InstanceProps option \<Rightarrow> ClassNode" where
  "put_instance node cur i inst =
     (case (branchNodes node cur, inst) of
        (Some insts, Some m) \<Rightarrow> node\<lparr>branchNodes := (branchNodes node)(cur \<mapsto> insts(i \<mapsto> m))\<rparr>
      | _ \<Rightarrow> node)"

definition stash ::
  "jsobj \<Rightarrow> string option \<Rightarrow> string option \<Rightarrow> registry \<Rightarrow> error + (bool \<times> registry)" where
  "stash payloadObj forcedClassName forcedId s =
     (let className = className_of payloadObj forcedClassName in
      case storage s className of
        None \<Rightarrow> Inr (False, s)
      | Some classNode \<Rightarrow>
          let i = id_of classNode payloadObj forcedId in
          if i = JUndefined then Inr (False, s)
          else
            let cur = currentBranch s;
                node1 = (if branchNodes classNode cur = None
                         then classNode\<lparr>branchNodes := (branchNodes classNode)(cur \<mapsto> Map.empty)\<rparr>
                         else classNode)
            in
            (case getInstance node1 cur i of
               Inl e \<Rightarrow> Inl e
             | Inr found \<Rightarrow>
                 (case (if found = None then setInstance node1 cur i Map.empty else Inr node1) of
                    Inl e \<Rightarrow> Inl e
                  | Inr node2 \<Rightarrow>
                      (case getInstance node2 cur i of
                         Inl e \<Rightarrow> Inl e
                       | Inr instance \<Rightarrow>
                           (case stash_props (dProps node2) payloadObj instance of
                              Inl e \<Rightarrow> Inl e
                            | Inr instance' \<Rightarrow>
                                Inr (True,
                                     s\<lparr>storage := (storage s)
                                          (className \<mapsto> put_instance node2 cur i instance')\<rparr>))))))"

subsection \<open>stashByKey\<close>

text \<open>
  The function has no declared return type: its first branch returns \<^verbatim>\<open>false\<close>, its last
  statement is the call of stash without \<^verbatim>\<open>return\<close>, so the result is a \<open>jsval\<close>.
  Calling the callback of a class registered without one is a \<^verbatim>\<open>TypeError\<close>.
\<close>

definition stashByKey ::
  "string \<Rightarrow> string \<Rightarrow> jsobj option \<Rightarrow> registry \<Rightarrow> error + (jsval \<times> registry)" where
  "stashByKey className i forcedPayload s =
     (case storage s className of
        None \<Rightarrow> Inr (JBool False, s)
      | Some classNode \<Rightarrow>
          (case (case forcedPayload of
                   None \<Rightarrow> (case fnGetSourceInstanceByKey classNode of
                               None \<Rightarrow> Inl TypeError
                             | Some f \<Rightarrow> Inr (f i))
                 | Some p \<Rightarrow> Inr p) of
             Inl e \<Rightarrow> Inl e
           | Inr payload \<Rightarrow>
               (case stash payload (Some className) (Some i) s of
                  Inl e \<Rightarrow> Inl e
                | Inr (_, s') \<Rightarrow> Inr (JUndefined, s'))))"

section \<open>Observations on a registry\<close>

text \<open>
  The instance record that the path class / branch / instance id leads to, if every map
  on the path has the key, and the value it stores for a property.
\<close>

definition lookup_instance :: "registry \<Rightarrow> string \<Rightarrow> string \<Rightarrow> jsval \<Rightarrow> InstanceProps option" where
  "lookup_instance s cls br i =
     (case storage s cls of
        None \<Rightarrow> None
      | Some node \<Rightarrow> (case branchNodes node br of None \<Rightarrow> None | Some insts \<Rightarrow> insts i))"

definition stored_value :: "registry \<Rightarrow> string \<Rightarrow> string \<Rightarrow> jsval \<Rightarrow> string \<Rightarrow> jsval option" where
  "stored_value s cls br i p =
     (case lookup_instance s cls br i of None \<Rightarrow> None | Some m \<Rightarrow> m p)"

text \<open>
  Closed forms of the two loops and of a successful stash, used to state what the
  operations compute: the instances of a branch and the record of an instance, both empty
  when missing; the record after the loop of stash; the properties of the target after
  the loop of reassign; the registry after a stash into instance \<open>i\<close> of class \<open>cls\<close>.
\<close>

definition branch_instances :: "ClassNode \<Rightarrow> string \<Rightarrow> SetOfInstances" where
  "branch_instances node br =
     (case branchNodes node br of None \<Rightarrow> Map.empty | Some insts \<Rightarrow> insts)"

definition instance_record :: "ClassNode \<Rightarrow> string \<Rightarrow> jsval \<Rightarrow> InstanceProps" where
  "instance_record node br i =
     (case branch_instances node br i of None \<Rightarrow> Map.empty | Some m \<Rightarrow> m)"

definition stashed_props :: "string list \<Rightarrow> jsobj \<Rightarrow> InstanceProps \<Rightarrow> InstanceProps" where
  "stashed_props ps payloadObj m =
     (\<lambda>p. if p \<in> set ps \<and> get_prop payloadObj p \<noteq> JUndefined
          then Some (get_prop payloadObj p) else m p)"

definition assigned_props ::
  "string list \<Rightarrow> InstanceProps \<Rightarrow> (string \<rightharpoonup> jsval) \<Rightarrow> (string \<rightharpoonup> jsval)" where
  "assigned_props ps m tp = (\<lambda>p. if p \<in> set ps \<and> m p \<noteq> None then m p else tp p)"

definition stashed_registry :: "registry \<Rightarrow> string \<Rightarrow> ClassNode \<Rightarrow> jsval \<Rightarrow> jsobj \<Rightarrow> registry" where
  "stashed_registry s cls node i payloadObj =
     s\<lparr>storage := (storage s)(cls \<mapsto>
         node\<lparr>branchNodes := (branchNodes node)(currentBranch s \<mapsto>
           (branch_instances node (currentBranch s))(i \<mapsto>
             stashed_props (dProps node) payloadObj
               (instance_record node (currentBranch s) i)))\<rparr>)\<rparr>"

subsection \<open>Example registries\<close>

text \<open>
  Two registries reached through the operations themselves. The first: on the initial
  registry, \<^verbatim>\<open>registerClass('Hero', ['a'])\<close>, \<^verbatim>\<open>switch('B')\<close>, \<^verbatim>\<open>stash({id: 'x', a: 5})\<close> on a
  \<^verbatim>\<open>Hero\<close>. The second: from the first, \<^verbatim>\<open>switch('A')\<close> and \<^verbatim>\<open>stash({id: 'x', a: 1})\<close>.
\<close>

definition hero_x_on_B :: registry where
  "hero_x_on_B =
     snd (projr (stash \<lparr>ctor_name = ''Hero'', props = [''id'' \<mapsto> JStr ''x'', ''a'' \<mapsto> JNum 5]\<rparr>
                   None None
                   (snd (switch (Some ''B'')
                      (snd (registerClass (ClassName ''Hero'') (DArray [''a'']) None None
                              initial_registry))))))"

definition hero_x_on_A_and_B :: registry where
  "hero_x_on_A_and_B =
     snd (projr (stash \<lparr>ctor_name = ''Hero'', props = [''id'' \<mapsto> JStr ''x'', ''a'' \<mapsto> JNum 1]\<rparr>
                   None None (snd (switch (Some ''A'') hero_x_on_B))))"

section \<open>What the operations compute\<close>

lemma stash_props_Some:
  "stash_props ps payloadObj (Some m) = Inr (Some (stashed_props ps payloadObj m))"
proof (induction ps arbitrary: m)
  case Nil
  show ?case by (simp add: stashed_props_def)
next
  case (Cons q ps)
  show ?case
    by (simp add: Cons.IH) (auto simp: stashed_props_def fun_eq_iff)
qed

lemma reassign_props_Some:
  "reassign_props ps (Some m) t = Inr (t\<lparr>props := assigned_props ps m (props t)\<rparr>)"
proof (induction ps arbitrary: t)
  case Nil
  show ?case by (simp add: assigned_props_def)
next
  case (Cons q ps)
  show ?case
    by (cases "m q") (auto simp: Cons.IH assigned_props_def set_prop_def fun_eq_iff)
qed

lemma stash_result:
  assumes "storage s (className_of payloadObj fc) = Some node"
    and "id_of node payloadObj fid \<noteq> JUndefined"
  shows "stash payloadObj fc fid s =
    Inr (True, stashed_registry s (className_of payloadObj fc) node
                 (id_of node payloadObj fid) payloadObj)"
  using assms
  by (auto simp: stash_def Let_def getInstance_def setInstance_def put_instance_def
      stash_props_Some branch_instances_def instance_record_def stashed_registry_def
      split: option.splits)

lemma stash_failure:
  "storage s (className_of payloadObj fc) = None \<Longrightarrow> stash payloadObj fc fid s = Inr (False, s)"
  "storage s (className_of payloadObj fc) = Some node \<Longrightarrow> id_of node payloadObj fid = JUndefined
     \<Longrightarrow> stash payloadObj fc fid s = Inr (False, s)"
  by (simp_all add: stash_def Let_def)

lemma reassign_result:
  "reassign t fc fid s =
     Inr (case storage s (className_of t fc) of
            None \<Rightarrow> (False, t, s)
          | Some node \<Rightarrow>
              if id_of node t fid = JUndefined then (False, t, s)
              else (case lookup_instance s (className_of t fc) (currentBranch s) (id_of node t fid) of
                      None \<Rightarrow> (False, t, s)
                    | Some m \<Rightarrow> (True, t\<lparr>props := assigned_props (dProps node) m (props t)\<rparr>, s)))"
  by (auto simp: reassign_def Let_def getInstance_def reassign_props_Some lookup_instance_def
      split: option.splits)

lemma switch_result:
  "switch ob s = (True, s\<lparr>currentBranch := (case ob of None \<Rightarrow> ''*'' | Some b \<Rightarrow> b)\<rparr>)"
  by (cases ob) auto

lemma id_of_branchNodes_update [simp]:
  "id_of (node\<lparr>branchNodes := b\<rparr>) obj fid = id_of node obj fid"
  by (simp add: id_of_def split: option.splits)

lemma currentBranch_stashed_registry [simp]:
  "currentBranch (stashed_registry s cls node i payloadObj) = currentBranch s"
  by (simp add: stashed_registry_def)

lemma storage_stashed_registry:
  "storage (stashed_registry s cls node i payloadObj) c =
     (if c = cls
      then Some (node\<lparr>branchNodes := (branchNodes node)(currentBranch s \<mapsto>
             (branch_instances node (currentBranch s))(i \<mapsto>
               stashed_props (dProps node) payloadObj
                 (instance_record node (currentBranch s) i)))\<rparr>)
      else storage s c)"
  by (simp add: stashed_registry_def)

lemma lookup_instance_stashed_registry:
  assumes "storage s cls = Some node"
  shows "lookup_instance (stashed_registry s cls node i payloadObj) c br j =
     (if c = cls \<and> br = currentBranch s \<and> j = i
      then Some (stashed_props (dProps node) payloadObj (instance_record node (currentBranch s) i))
      else lookup_instance s c br j)"
  using assms
  by (auto simp: lookup_instance_def storage_stashed_registry branch_instances_def
      split: option.splits)

lemma instance_record_lookup:
  "storage s cls = Some node \<Longrightarrow>
   instance_record node br i p = stored_value s cls br i p"
  by (simp add: instance_record_def branch_instances_def stored_value_def lookup_instance_def
      split: option.splits)

lemma stored_value_stashed_registry:
  assumes "storage s cls = Some node"
  shows "stored_value (stashed_registry s cls node i payloadObj) c br j p =
     (if c = cls \<and> br = currentBranch s \<and> j = i
         \<and> p \<in> set (dProps node) \<and> get_prop payloadObj p \<noteq> JUndefined
      then Some (get_prop payloadObj p)
      else stored_value s c br j p)"
  using assms instance_record_lookup [OF assms, of "currentBranch s" i p]
  by (auto simp: stored_value_def lookup_instance_stashed_registry stashed_props_def)

lemma lookup_instance_currentBranch_update [simp]:
  "lookup_instance (s\<lparr>currentBranch := b\<rparr>) = lookup_instance s"
  by (simp add: lookup_instance_def fun_eq_iff)

lemma stored_value_currentBranch_update [simp]:
  "stored_value (s\<lparr>currentBranch := b\<rparr>) = stored_value s"
  by (simp add: stored_value_def fun_eq_iff)

lemma stashed_registry_class:
  "\<exists>node'. storage (stashed_registry s cls node i payloadObj) cls = Some node'
      \<and> dProps node' = dProps node \<and> keyProp node' = keyProp node
      \<and> fnGetSourceInstanceByKey node' = fnGetSourceInstanceByKey node"
  by (simp add: storage_stashed_registry)

lemma reassign_hit:
  assumes "storage s (className_of t fc) = Some node"
    and "id_of node t fid \<noteq> JUndefined"
    and "lookup_instance s (className_of t fc) (currentBranch s) (id_of node t fid) = Some m"
  shows "reassign t fc fid s = Inr (True, t\<lparr>props := assigned_props (dProps node) m (props t)\<rparr>, s)"
  using assms by (simp add: reassign_result)

lemma reassign_miss:
  assumes "storage s (className_of t fc) = Some node"
    and "lookup_instance s (className_of t fc) (currentBranch s) (id_of node t fid) = None"
  shows "reassign t fc fid s = Inr (False, t, s)"
  using assms by (simp add: reassign_result)

lemma stash_frame:
  "\<exists>r s'. stash payloadObj fc fid s = Inr (r, s')
      \<and> (\<forall>c br j p. stored_value s' c br j p \<noteq> stored_value s c br j p \<longrightarrow>
            (\<exists>node. storage s c = Some node \<and> c = className_of payloadObj fc
               \<and> p \<in> set (dProps node)
               \<and> stored_value s' c br j p = Some (get_prop payloadObj p)))"
proof (cases "storage s (className_of payloadObj fc)")
  case None
  then show ?thesis by (auto simp: stash_failure)
next
  case (Some node)
  show ?thesis
  proof (cases "id_of node payloadObj fid = JUndefined")
    case True
    with Some show ?thesis by (auto simp: stash_failure)
  next
    case False
    with Some show ?thesis
      by (auto simp: stash_result stored_value_stashed_registry)
  qed
qed

lemma reassign_frame:
  "\<exists>r t'. reassign targetObj fc fid s = Inr (r, t', s)
      \<and> ctor_name t' = ctor_name targetObj
      \<and> (\<forall>p. props t' p \<noteq> props targetObj p \<longrightarrow>
            (\<exists>node. storage s (className_of targetObj fc) = Some node
               \<and> p \<in> set (dProps node)
               \<and> props t' p \<noteq> None
               \<and> props t' p = stored_value s (className_of targetObj fc) (currentBranch s)
                                (id_of node targetObj fid) p))"
  by (auto simp: reassign_result assigned_props_def stored_value_def split: option.splits)

lemma registerClass_Array:
  assumes "storage s cls = None" and "xs \<noteq> []"
  shows "registerClass (ClassName cls) (DArray xs) kp fn s =
    (True, s\<lparr>storage := (storage s)(cls \<mapsto> new_ClassNode (new_Set xs) Map.empty kp fn)\<rparr>)"
  using assms by (simp add: registerClass_def)

lemma registerClass_again:
  "storage s cls \<noteq> None \<Longrightarrow> registerClass (ClassName cls) dps kp fn s = (False, s)"
  by (auto simp: registerClass_def)

lemma registerClass_Set:
  "registerClass subjectClass (DSet xs) kp fn s = (False, s)"
  by (simp add: registerClass_def Let_def)

lemma stash_other_branches:
  "\<exists>r s'. stash payloadObj fc fid s = Inr (r, s')
      \<and> currentBranch s' = currentBranch s
      \<and> (\<forall>c br j. br \<noteq> currentBranch s \<longrightarrow> lookup_instance s' c br j = lookup_instance s c br j)"
proof (cases "storage s (className_of payloadObj fc)")
  case None
  then show ?thesis by (auto simp: stash_failure)
next
  case (Some node)
  show ?thesis
  proof (cases "id_of node payloadObj fid = JUndefined")
    case True
    with Some show ?thesis by (auto simp: stash_failure)
  next
    case False
    with Some show ?thesis
      by (auto simp: stash_result lookup_instance_stashed_registry)
  qed
qed

lemma reassign_hit_iff:
  assumes "storage s (className_of t fc) = Some node"
    and "id_of node t fid \<noteq> JUndefined"
  shows "\<exists>t'. reassign t fc fid s =
           Inr (lookup_instance s (className_of t fc) (currentBranch s) (id_of node t fid) \<noteq> None,
                t', s)"
  using assms by (auto simp: reassign_result split: option.splits)

section \<open>The claims\<close>

text \<open>
  C1. Round trip. For a class registered with key property \<^verbatim>\<open>id\<close> and tracked properties
  \<^verbatim>\<open>a\<close> and \<^verbatim>\<open>b\<close>, in any registry: the stash of a payload \<^verbatim>\<open>{id: 'x', a: 1, b: 2}\<close> of
  that class returns true and keeps the current branch, and the reassign that follows on a
  target \<^verbatim>\<open>{id: 'x'}\<close> of that class returns true and leaves the target with exactly
  \<^verbatim>\<open>{id: 'x', a: 1, b: 2}\<close>.
\<close>

theorem stash_reassign_roundtrip:
  assumes "storage s cls = Some node"
    and "keyProp node = ''id''"
    and "set (dProps node) = {''a'', ''b''}"
    and "className_of payloadObj fc = cls"
    and "className_of targetObj fc' = cls"
    and "props payloadObj = [''id'' \<mapsto> JStr ''x'', ''a'' \<mapsto> JNum 1, ''b'' \<mapsto> JNum 2]"
    and "props targetObj = [''id'' \<mapsto> JStr ''x'']"
  shows "\<exists>s'. stash payloadObj fc None s = Inr (True, s')
           \<and> currentBranch s' = currentBranch s
           \<and> reassign targetObj fc' None s' =
               Inr (True,
                    targetObj\<lparr>props := [''id'' \<mapsto> JStr ''x'', ''a'' \<mapsto> JNum 1, ''b'' \<mapsto> JNum 2]\<rparr>,
                    s')"
proof -
  let ?s' = "stashed_registry s cls node (JStr ''x'') payloadObj"
  have i: "id_of node payloadObj None = JStr ''x''" "id_of node targetObj None = JStr ''x''"
    using assms by (simp_all add: id_of_def get_prop_def)
  have st: "stash payloadObj fc None s = Inr (True, ?s')"
    using stash_result [of s payloadObj fc node None] assms i by simp
  have m: "assigned_props (dProps node)
             (stashed_props (dProps node) payloadObj (instance_record node (currentBranch s) (JStr ''x'')))
             (props targetObj)
           = [''id'' \<mapsto> JStr ''x'', ''a'' \<mapsto> JNum 1, ''b'' \<mapsto> JNum 2]"
    using assms by (auto simp: assigned_props_def stashed_props_def get_prop_def fun_eq_iff)
  have "reassign targetObj fc' None ?s' =
      Inr (True, targetObj\<lparr>props := [''id'' \<mapsto> JStr ''x'', ''a'' \<mapsto> JNum 1, ''b'' \<mapsto> JNum 2]\<rparr>, ?s')"
    using assms i m
    by (simp add: reassign_result storage_stashed_registry lookup_instance_stashed_registry)
  with st show ?thesis by simp
qed

theorem stash_reassign_roundtrip_witness:
  "\<exists>s'. stash \<lparr>ctor_name = ''Hero'',
                 props = [''id'' \<mapsto> JStr ''x'', ''a'' \<mapsto> JNum 1, ''b'' \<mapsto> JNum 2]\<rparr> None None
           (snd (registerClass (ClassName ''Hero'') (DArray [''a'', ''b'']) None None initial_registry))
         = Inr (True, s')
      \<and> reassign \<lparr>ctor_name = ''Hero'', props = [''id'' \<mapsto> JStr ''x'']\<rparr> None None s'
         = Inr (True,
                \<lparr>ctor_name = ''Hero'',
                 props = [''id'' \<mapsto> JStr ''x'', ''a'' \<mapsto> JNum 1, ''b'' \<mapsto> JNum 2]\<rparr>,
                s')"
  using stash_reassign_roundtrip
    [of "snd (registerClass (ClassName ''Hero'') (DArray [''a'', ''b'']) None None initial_registry)"
      "''Hero''" "new_ClassNode [''a'', ''b''] Map.empty None None"
      "\<lparr>ctor_name = ''Hero'',
        props = [''id'' \<mapsto> JStr ''x'', ''a'' \<mapsto> JNum 1, ''b'' \<mapsto> JNum 2]\<rparr>" None
      "\<lparr>ctor_name = ''Hero'', props = [''id'' \<mapsto> JStr ''x'']\<rparr>" None]
  by (auto simp: registerClass_def initial_registry_def new_ClassNode_def new_Set_def set_add_def
      className_of_def insert_commute)

text \<open>
  C2. Stash is a field-level upsert merge. For a registered class, every stash whose
  instance id is defined returns true, and afterwards each tracked property holds the value
  of the payload when the payload defines it, and the entry it held before (a value or
  none) when the payload does not. In particular, for a class with key property \<^verbatim>\<open>id\<close>
  that tracks \<^verbatim>\<open>a\<close> and \<^verbatim>\<open>b\<close>: after the stash of \<^verbatim>\<open>{id: 'x', a: 0, b: 2}\<close> and then of
  \<^verbatim>\<open>{id: 'x', a: 1}\<close>, reassign on \<^verbatim>\<open>{id: 'x'}\<close> returns true and the target reads
  \<^verbatim>\<open>a = 1\<close> and \<^verbatim>\<open>b = 2\<close>.
\<close>

theorem stash_upsert_merge:
  assumes "storage s cls = Some node"
  shows
    "(className_of payloadObj fc = cls \<and> id_of node payloadObj fid \<noteq> JUndefined \<longrightarrow>
        (\<exists>s'. stash payloadObj fc fid s = Inr (True, s')
           \<and> (\<forall>p\<in>set (dProps node).
                 stored_value s' cls (currentBranch s) (id_of node payloadObj fid) p =
                   (if get_prop payloadObj p \<noteq> JUndefined then Some (get_prop payloadObj p)
                    else stored_value s cls (currentBranch s) (id_of node payloadObj fid) p))))
     \<and> (keyProp node = ''id'' \<and> ''a'' \<in> set (dProps node) \<and> ''b'' \<in> set (dProps node)
         \<and> className_of firstObj fcA = cls
         \<and> props firstObj = [''id'' \<mapsto> JStr ''x'', ''a'' \<mapsto> JNum 0, ''b'' \<mapsto> JNum 2]
         \<and> className_of secondObj fcB = cls
         \<and> props secondObj = [''id'' \<mapsto> JStr ''x'', ''a'' \<mapsto> JNum 1]
         \<and> className_of targetObj fcT = cls
         \<and> props targetObj = [''id'' \<mapsto> JStr ''x''] \<longrightarrow>
        (\<exists>s1 s2 t'. stash firstObj fcA None s = Inr (True, s1)
           \<and> stash secondObj fcB None s1 = Inr (True, s2)
           \<and> reassign targetObj fcT None s2 = Inr (True, t', s2)
           \<and> get_prop t' ''a'' = JNum 1 \<and> get_prop t' ''b'' = JNum 2))"
proof (intro conjI impI)
  assume h: "className_of payloadObj fc = cls \<and> id_of node payloadObj fid \<noteq> JUndefined"
  let ?s' = "stashed_registry s cls node (id_of node payloadObj fid) payloadObj"
  have "stash payloadObj fc fid s = Inr (True, ?s')"
    using stash_result [of s payloadObj fc node fid] assms h by simp
  moreover have "\<forall>p\<in>set (dProps node).
      stored_value ?s' cls (currentBranch s) (id_of node payloadObj fid) p =
        (if get_prop payloadObj p \<noteq> JUndefined then Some (get_prop payloadObj p)
         else stored_value s cls (currentBranch s) (id_of node payloadObj fid) p)"
    using assms by (simp add: stored_value_stashed_registry)
  ultimately show "\<exists>s'. stash payloadObj fc fid s = Inr (True, s')
      \<and> (\<forall>p\<in>set (dProps node).
            stored_value s' cls (currentBranch s) (id_of node payloadObj fid) p =
              (if get_prop payloadObj p \<noteq> JUndefined then Some (get_prop payloadObj p)
               else stored_value s cls (currentBranch s) (id_of node payloadObj fid) p))"
    by blast
next
  assume h: "keyProp node = ''id'' \<and> ''a'' \<in> set (dProps node) \<and> ''b'' \<in> set (dProps node)
         \<and> className_of firstObj fcA = cls
         \<and> props firstObj = [''id'' \<mapsto> JStr ''x'', ''a'' \<mapsto> JNum 0, ''b'' \<mapsto> JNum 2]
         \<and> className_of secondObj fcB = cls
         \<and> props secondObj = [''id'' \<mapsto> JStr ''x'', ''a'' \<mapsto> JNum 1]
         \<and> className_of targetObj fcT = cls
         \<and> props targetObj = [''id'' \<mapsto> JStr ''x'']"
  let ?x = "JStr ''x''"
  let ?s1 = "stashed_registry s cls node ?x firstObj"
  obtain node1 where n1: "storage ?s1 cls = Some node1" "dProps node1 = dProps node"
      "keyProp node1 = keyProp node"
    using stashed_registry_class [of s cls node ?x firstObj] by blast
  let ?s2 = "stashed_registry ?s1 cls node1 ?x secondObj"
  obtain node2 where n2: "storage ?s2 cls = Some node2" "dProps node2 = dProps node"
      "keyProp node2 = keyProp node"
    using stashed_registry_class [of ?s1 cls node1 ?x secondObj] n1 by auto
  have i: "id_of node firstObj None = ?x" "id_of node1 secondObj None = ?x"
      "id_of node2 targetObj None = ?x"
    using h n1 n2 by (simp_all add: id_of_def get_prop_def)
  have st1: "stash firstObj fcA None s = Inr (True, ?s1)"
    using stash_result [of s firstObj fcA node None] assms h i by simp
  have st2: "stash secondObj fcB None ?s1 = Inr (True, ?s2)"
    using stash_result [of ?s1 secondObj fcB node1 None] n1 h i by simp
  let ?m = "stashed_props (dProps node1) secondObj (instance_record node1 (currentBranch s) ?x)"
  have l: "lookup_instance ?s2 cls (currentBranch ?s2) ?x = Some ?m"
    using n1 by (simp add: lookup_instance_stashed_registry)
  have r1: "instance_record node1 (currentBranch s) ?x p
      = stored_value ?s1 cls (currentBranch s) ?x p" for p
    using instance_record_lookup [OF n1(1)] by simp
  have ma: "?m ''a'' = Some (JNum 1)"
    using h n1 by (simp add: stashed_props_def get_prop_def)
  have mb: "?m ''b'' = Some (JNum 2)"
    using h n1 assms
    by (simp add: stashed_props_def r1 stored_value_stashed_registry get_prop_def)
  have re: "reassign targetObj fcT None ?s2
      = Inr (True, targetObj\<lparr>props := assigned_props (dProps node2) ?m (props targetObj)\<rparr>, ?s2)"
    using reassign_hit [of ?s2 targetObj fcT node2 None ?m] n2 h i l by simp
  show "\<exists>s1 s2 t'. stash firstObj fcA None s = Inr (True, s1)
           \<and> stash secondObj fcB None s1 = Inr (True, s2)
           \<and> reassign targetObj fcT None s2 = Inr (True, t', s2)
           \<and> get_prop t' ''a'' = JNum 1 \<and> get_prop t' ''b'' = JNum 2"
    using st1 st2 re ma mb h n2 by (simp add: get_prop_def assigned_props_def)
qed

theorem stash_upsert_merge_witness:
  "\<exists>s1 s2 t'.
      stash \<lparr>ctor_name = ''Hero'',
             props = [''id'' \<mapsto> JStr ''x'', ''a'' \<mapsto> JNum 0, ''b'' \<mapsto> JNum 2]\<rparr> None None
        (snd (registerClass (ClassName ''Hero'') (DArray [''a'', ''b'']) None None initial_registry))
        = Inr (True, s1)
    \<and> stored_value s1 ''Hero'' ''*'' (JStr ''x'') ''a'' = Some (JNum 0)
    \<and> stash \<lparr>ctor_name = ''Hero'', props = [''id'' \<mapsto> JStr ''x'', ''a'' \<mapsto> JNum 1]\<rparr>
          None None s1 = Inr (True, s2)
    \<and> reassign \<lparr>ctor_name = ''Hero'', props = [''id'' \<mapsto> JStr ''x'']\<rparr> None None s2
        = Inr (True, t', s2)
    \<and> get_prop t' ''a'' = JNum 1 \<and> get_prop t' ''b'' = JNum 2"
  using stash_upsert_merge
    [where s = "snd (registerClass (ClassName ''Hero'') (DArray [''a'', ''b'']) None None
                  initial_registry)"
      and cls = "''Hero''" and node = "new_ClassNode [''a'', ''b''] Map.empty None None"
      and payloadObj = "\<lparr>ctor_name = ''Hero'',
             props = [''id'' \<mapsto> JStr ''x'', ''a'' \<mapsto> JNum 0, ''b'' \<mapsto> JNum 2]\<rparr>"
      and fc = None and fid = None
      and firstObj = "\<lparr>ctor_name = ''Hero'',
             props = [''id'' \<mapsto> JStr ''x'', ''a'' \<mapsto> JNum 0, ''b'' \<mapsto> JNum 2]\<rparr>"
      and fcA = None
      and secondObj = "\<lparr>ctor_name = ''Hero'', props = [''id'' \<mapsto> JStr ''x'', ''a'' \<mapsto> JNum 1]\<rparr>"
      and fcB = None
      and targetObj = "\<lparr>ctor_name = ''Hero'', props = [''id'' \<mapsto> JStr ''x'']\<rparr>"
      and fcT = None]
  by (auto simp: registerClass_def initial_registry_def new_ClassNode_def new_Set_def set_add_def
      className_of_def id_of_def get_prop_def)

text \<open>
  C3. Branch isolation. Every stash returns, keeps the current branch, and leaves the
  record of every class and instance id in every branch other than the current one as it
  was. A reassign for a registered class and a defined id returns true exactly when the
  branch that is current at the call holds a record for the id. So, for a registered class
  with key property \<^verbatim>\<open>id\<close> that tracks \<^verbatim>\<open>a\<close>, whatever branch was current at registration,
  and with nothing stored for \<^verbatim>\<open>'x'\<close> in branch \<^verbatim>\<open>'B'\<close>: after switching to \<^verbatim>\<open>'A'\<close> and
  stashing \<^verbatim>\<open>{id: 'x', a: 1}\<close>, switching to \<^verbatim>\<open>'B'\<close> makes reassign on \<^verbatim>\<open>{id: 'x'}\<close> return
  false with the target unchanged, and switching back to \<^verbatim>\<open>'A'\<close> makes the same reassign
  return true with \<^verbatim>\<open>a = 1\<close> on the target.
\<close>

theorem branch_isolation:
  "(\<exists>r s'. stash anyObj fcS fidS s = Inr (r, s')
      \<and> currentBranch s' = currentBranch s
      \<and> (\<forall>c br j. br \<noteq> currentBranch s \<longrightarrow> lookup_instance s' c br j = lookup_instance s c br j))
   \<and> (storage s (className_of anyTarget fcR) = Some nodeR
       \<and> id_of nodeR anyTarget fidR \<noteq> JUndefined \<longrightarrow>
       (\<exists>t'. reassign anyTarget fcR fidR s =
          Inr (lookup_instance s (className_of anyTarget fcR) (currentBranch s)
                 (id_of nodeR anyTarget fidR) \<noteq> None,
               t', s)))
   \<and> (storage s cls = Some node \<and> keyProp node = ''id'' \<and> ''a'' \<in> set (dProps node)
       \<and> lookup_instance s cls ''B'' (JStr ''x'') = None
       \<and> className_of payloadObj fc = cls
       \<and> className_of targetObj fc' = cls
       \<and> props payloadObj = [''id'' \<mapsto> JStr ''x'', ''a'' \<mapsto> JNum 1]
       \<and> props targetObj = [''id'' \<mapsto> JStr ''x''] \<longrightarrow>
       (\<exists>sA sA' sB sA2 t'.
            switch (Some ''A'') s = (True, sA)
          \<and> stash payloadObj fc None sA = Inr (True, sA')
          \<and> switch (Some ''B'') sA' = (True, sB)
          \<and> reassign targetObj fc' None sB = Inr (False, targetObj, sB)
          \<and> switch (Some ''A'') sB = (True, sA2)
          \<and> reassign targetObj fc' None sA2 = Inr (True, t', sA2)
          \<and> get_prop t' ''a'' = JNum 1))"
proof (intro conjI impI)
  show "\<exists>r s'. stash anyObj fcS fidS s = Inr (r, s')
      \<and> currentBranch s' = currentBranch s
      \<and> (\<forall>c br j. br \<noteq> currentBranch s \<longrightarrow> lookup_instance s' c br j = lookup_instance s c br j)"
    by (rule stash_other_branches)
next
  assume "storage s (className_of anyTarget fcR) = Some nodeR
       \<and> id_of nodeR anyTarget fidR \<noteq> JUndefined"
  then show "\<exists>t'. reassign anyTarget fcR fidR s =
          Inr (lookup_instance s (className_of anyTarget fcR) (currentBranch s)
                 (id_of nodeR anyTarget fidR) \<noteq> None,
               t', s)"
    using reassign_hit_iff [of s anyTarget fcR nodeR fidR] by blast
next
  assume h: "storage s cls = Some node \<and> keyProp node = ''id'' \<and> ''a'' \<in> set (dProps node)
       \<and> lookup_instance s cls ''B'' (JStr ''x'') = None
       \<and> className_of payloadObj fc = cls
       \<and> className_of targetObj fc' = cls
       \<and> props payloadObj = [''id'' \<mapsto> JStr ''x'', ''a'' \<mapsto> JNum 1]
       \<and> props targetObj = [''id'' \<mapsto> JStr ''x'']"
  let ?x = "JStr ''x''"
  let ?sA = "s\<lparr>currentBranch := ''A''\<rparr>"
  let ?sA' = "stashed_registry ?sA cls node ?x payloadObj"
  let ?sB = "?sA'\<lparr>currentBranch := ''B''\<rparr>"
  let ?sA2 = "?sB\<lparr>currentBranch := ''A''\<rparr>"
  have sw1: "switch (Some ''A'') s = (True, ?sA)"
    and sw2: "switch (Some ''B'') ?sA' = (True, ?sB)"
    and sw3: "switch (Some ''A'') ?sB = (True, ?sA2)"
    by (simp_all add: switch_result)
  have regA: "storage ?sA cls = Some node"
    using h by simp
  have i: "id_of node payloadObj None = ?x"
    using h by (simp add: id_of_def get_prop_def)
  have st: "stash payloadObj fc None ?sA = Inr (True, ?sA')"
    using stash_result [of ?sA payloadObj fc node None] regA h i by simp
  obtain node' where n': "storage ?sA' cls = Some node'" "dProps node' = dProps node"
      "keyProp node' = keyProp node"
    using stashed_registry_class [of ?sA cls node ?x payloadObj] by blast
  have i': "id_of node' targetObj None = ?x"
    using h n' by (simp add: id_of_def get_prop_def)
  have missB: "lookup_instance ?sB cls ''B'' ?x = None"
    using h regA by (simp add: lookup_instance_stashed_registry)
  have reB: "reassign targetObj fc' None ?sB = Inr (False, targetObj, ?sB)"
    using reassign_miss [of ?sB targetObj fc' node' None] n' h i' missB by simp
  let ?m = "stashed_props (dProps node) payloadObj (instance_record node ''A'' ?x)"
  have hitA: "lookup_instance ?sA2 cls ''A'' ?x = Some ?m"
    using regA by (simp add: lookup_instance_stashed_registry)
  have reA: "reassign targetObj fc' None ?sA2
      = Inr (True, targetObj\<lparr>props := assigned_props (dProps node') ?m (props targetObj)\<rparr>, ?sA2)"
    using reassign_hit [of ?sA2 targetObj fc' node' None ?m] n' h i' hitA by simp
  have a: "get_prop (targetObj\<lparr>props := assigned_props (dProps node') ?m (props targetObj)\<rparr>) ''a''
      = JNum 1"
    using h n' by (simp add: get_prop_def assigned_props_def stashed_props_def)
  show "\<exists>sA sA' sB sA2 t'.
            switch (Some ''A'') s = (True, sA)
          \<and> stash payloadObj fc None sA = Inr (True, sA')
          \<and> switch (Some ''B'') sA' = (True, sB)
          \<and> reassign targetObj fc' None sB = Inr (False, targetObj, sB)
          \<and> switch (Some ''A'') sB = (True, sA2)
          \<and> reassign targetObj fc' None sA2 = Inr (True, t', sA2)
          \<and> get_prop t' ''a'' = JNum 1"
    using sw1 st sw2 reB sw3 reA a by blast
qed

theorem branch_isolation_witness:
  "(\<exists>sA sA' sB sA2 t'.
      switch (Some ''A'')
        (snd (registerClass (ClassName ''Hero'') (DArray [''a'']) None None initial_registry))
        = (True, sA)
    \<and> stash \<lparr>ctor_name = ''Hero'', props = [''id'' \<mapsto> JStr ''x'', ''a'' \<mapsto> JNum 1]\<rparr>
         None None sA = Inr (True, sA')
    \<and> switch (Some ''B'') sA' = (True, sB)
    \<and> reassign \<lparr>ctor_name = ''Hero'', props = [''id'' \<mapsto> JStr ''x'']\<rparr> None None sB
        = Inr (False, \<lparr>ctor_name = ''Hero'', props = [''id'' \<mapsto> JStr ''x'']\<rparr>, sB)
    \<and> switch (Some ''A'') sB = (True, sA2)
    \<and> reassign \<lparr>ctor_name = ''Hero'', props = [''id'' \<mapsto> JStr ''x'']\<rparr> None None sA2
        = Inr (True, t', sA2)
    \<and> get_prop t' ''a'' = JNum 1)
   \<and> (\<exists>s'. stash \<lparr>ctor_name = ''Hero'', props = [''id'' \<mapsto> JStr ''x'', ''a'' \<mapsto> JNum 1]\<rparr>
           None None (snd (switch (Some ''A'') hero_x_on_B)) = Inr (True, s')
        \<and> lookup_instance s' ''Hero'' ''B'' (JStr ''x'')
            = lookup_instance hero_x_on_B ''Hero'' ''B'' (JStr ''x''))"
proof -
  let ?reg = "snd (registerClass (ClassName ''Hero'') (DArray [''a'']) None None initial_registry)"
  let ?p = "\<lparr>ctor_name = ''Hero'', props = [''id'' \<mapsto> JStr ''x'', ''a'' \<mapsto> JNum 1]\<rparr>"
  let ?t = "\<lparr>ctor_name = ''Hero'', props = [''id'' \<mapsto> JStr ''x'']\<rparr>"
  have scenario: "\<exists>sA sA' sB sA2 t'.
      switch (Some ''A'') ?reg = (True, sA)
    \<and> stash ?p None None sA = Inr (True, sA')
    \<and> switch (Some ''B'') sA' = (True, sB)
    \<and> reassign ?t None None sB = Inr (False, ?t, sB)
    \<and> switch (Some ''A'') sB = (True, sA2)
    \<and> reassign ?t None None sA2 = Inr (True, t', sA2)
    \<and> get_prop t' ''a'' = JNum 1"
    using branch_isolation
      [where s = ?reg and cls = "''Hero''" and node = "new_ClassNode [''a''] Map.empty None None"
        and payloadObj = ?p and fc = None and targetObj = ?t and fc' = None]
    by (simp add: registerClass_def initial_registry_def new_ClassNode_def new_Set_def set_add_def
        className_of_def lookup_instance_def)
  let ?sA = "snd (switch (Some ''A'') hero_x_on_B)"
  have frame: "\<exists>r s'. stash ?p None None ?sA = Inr (r, s')
      \<and> currentBranch s' = currentBranch ?sA
      \<and> (\<forall>c br j. br \<noteq> currentBranch ?sA \<longrightarrow> lookup_instance s' c br j = lookup_instance ?sA c br j)"
    using branch_isolation [where s = ?sA and anyObj = ?p and fcS = None and fidS = None]
    by blast
  have cur: "currentBranch ?sA = ''A''"
    by (simp add: switch_result)
  have ok: "stash ?p None None ?sA = Inr (True, hero_x_on_A_and_B)"
    by (simp add: hero_x_on_A_and_B_def hero_x_on_B_def registerClass_def initial_registry_def
      new_Set_def set_add_def switch_result stash_result className_of_def id_of_def get_prop_def
      new_ClassNode_def storage_stashed_registry)
  from frame cur ok have "lookup_instance hero_x_on_A_and_B ''Hero'' ''B'' (JStr ''x'')
      = lookup_instance ?sA ''Hero'' ''B'' (JStr ''x'')"
    by auto
  then have "lookup_instance hero_x_on_A_and_B ''Hero'' ''B'' (JStr ''x'')
      = lookup_instance hero_x_on_B ''Hero'' ''B'' (JStr ''x'')"
    by (simp add: switch_result)
  with ok scenario show ?thesis by blast
qed

text \<open>
  C3 without the condition on branch \<^verbatim>\<open>'B'\<close>: when \<^verbatim>\<open>{id: 'x', a: 5}\<close> was stashed in branch
  \<^verbatim>\<open>'B'\<close> before, the stash of \<^verbatim>\<open>{id: 'x', a: 1}\<close> in branch \<^verbatim>\<open>'A'\<close> returns true, and after
  switching to \<^verbatim>\<open>'B'\<close> the reassign on \<^verbatim>\<open>{id: 'x'}\<close> returns true and sets \<^verbatim>\<open>a = 5\<close>: the
  record of branch \<^verbatim>\<open>'B'\<close> is still there.
\<close>

theorem branch_isolation_counterexample:
  "stash \<lparr>ctor_name = ''Hero'', props = [''id'' \<mapsto> JStr ''x'', ''a'' \<mapsto> JNum 5]\<rparr> None None
     (snd (switch (Some ''B'')
        (snd (registerClass (ClassName ''Hero'') (DArray [''a'']) None None initial_registry))))
     = Inr (True, hero_x_on_B)
   \<and> stash \<lparr>ctor_name = ''Hero'', props = [''id'' \<mapsto> JStr ''x'', ''a'' \<mapsto> JNum 1]\<rparr> None None
       (snd (switch (Some ''A'') hero_x_on_B))
     = Inr (True, hero_x_on_A_and_B)
   \<and> reassign \<lparr>ctor_name = ''Hero'', props = [''id'' \<mapsto> JStr ''x'']\<rparr> None None
       (snd (switch (Some ''B'') hero_x_on_A_and_B))
     = Inr (True,
            \<lparr>ctor_name = ''Hero'', props = [''id'' \<mapsto> JStr ''x'', ''a'' \<mapsto> JNum 5]\<rparr>,
            snd (switch (Some ''B'') hero_x_on_A_and_B))"
  by (simp add: hero_x_on_A_and_B_def hero_x_on_B_def registerClass_def initial_registry_def
      new_Set_def set_add_def switch_result stash_result className_of_def id_of_def get_prop_def
      new_ClassNode_def storage_stashed_registry reassign_result lookup_instance_def
      assigned_props_def stashed_props_def instance_record_def branch_instances_def fun_eq_iff)



text \<open>
  C5. On the empty registry, registering the class \<^verbatim>\<open>'Hero'\<close> with the tracked properties
  given as the set \<^verbatim>\<open>new Set(['a'])\<close> returns false and registers nothing.
\<close>

theorem registerClass_rejects_Set:
  "registerClass (ClassName ''Hero'') (DSet [''a'']) None None initial_registry
     = (False, initial_registry)"
  by (simp add: registerClass_def initial_registry_def)

text \<open>
  C6. For the class \<^verbatim>\<open>'Hero'\<close> registered with \<^verbatim>\<open>['a']\<close>, the call
  \<^verbatim>\<open>stashByKey('Hero', 'x', {a: 1})\<close> changes the registry as the stash it delegates to, which
  returns true, but its own result is \<^verbatim>\<open>undefined\<close>.
\<close>

theorem stashByKey_returns_undefined:
  "\<exists>s'. stash \<lparr>ctor_name = ''Object'', props = [''a'' \<mapsto> JNum 1]\<rparr> (Some ''Hero'') (Some ''x'')
           (snd (registerClass (ClassName ''Hero'') (DArray [''a'']) None None initial_registry))
         = Inr (True, s')
      \<and> stashByKey ''Hero'' ''x'' (Some \<lparr>ctor_name = ''Object'', props = [''a'' \<mapsto> JNum 1]\<rparr>)
           (snd (registerClass (ClassName ''Hero'') (DArray [''a'']) None None initial_registry))
         = Inr (JUndefined, s')"
  by (simp add: stashByKey_def registerClass_def initial_registry_def new_ClassNode_def
      stash_result className_of_def id_of_def)

text \<open>
  C7. For the class \<^verbatim>\<open>'Hero'\<close> registered with \<^verbatim>\<open>['a']\<close> and no callback, the call
  \<^verbatim>\<open>stashByKey('Hero', 'x')\<close> raises a \<^verbatim>\<open>TypeError\<close>.
\<close>

theorem stashByKey_throws_without_callback:
  "stashByKey ''Hero'' ''x'' None
     (snd (registerClass (ClassName ''Hero'') (DArray [''a'']) None None initial_registry))
   = Inl TypeError"
  by (simp add: stashByKey_def registerClass_def initial_registry_def new_ClassNode_def)

text \<open>
  C8. Every call of switch returns true, leaves the store as it is and makes the current
  branch the one given, \<^verbatim>\<open>'*'\<close> when none is given; when that is the current branch already,
  the registry is unchanged; and a second call with the same argument changes nothing more.
\<close>

theorem switch_sets_current_branch:
  "fst (switch ob s) = True
   \<and> currentBranch (snd (switch ob s)) = (case ob of None \<Rightarrow> ''*'' | Some b \<Rightarrow> b)
   \<and> storage (snd (switch ob s)) = storage s
   \<and> (currentBranch s = (case ob of None \<Rightarrow> ''*'' | Some b \<Rightarrow> b) \<longrightarrow> snd (switch ob s) = s)
   \<and> switch ob (snd (switch ob s)) = switch ob s"
  by (simp add: switch_result)

theorem switch_sets_current_branch_witness:
  "switch (Some ''A'') initial_registry = (True, \<lparr>storage = Map.empty, currentBranch = ''A''\<rparr>)
   \<and> switch (Some ''A'') (snd (switch (Some ''A'') initial_registry))
       = switch (Some ''A'') initial_registry
   \<and> switch None initial_registry = (True, initial_registry)
   \<and> snd (switch (Some ''*'') initial_registry) = initial_registry"
  using switch_sets_current_branch [of "Some ''A''" initial_registry]
    switch_sets_current_branch [of "Some ''*''" initial_registry]
  by (simp add: initial_registry_def)

text \<open>
  C9. Untracked properties are never stored nor restored. Every stash returns, and a stored
  value it changes belongs to the class of the call, is the value of a tracked property,
  and is the value the payload has for it. Every reassign returns, and a property of the
  target it changes is a tracked property with a stored entry, which it now equals. For a
  class with key property \<^verbatim>\<open>id\<close> that tracks only \<^verbatim>\<open>a\<close>: the stash of
  \<^verbatim>\<open>{id: 'x', a: 1, z: 99}\<close> leaves the stored entry of \<^verbatim>\<open>z\<close> as it was, and the reassign
  on \<^verbatim>\<open>{id: 'x', z: 0}\<close> gives \<^verbatim>\<open>{id: 'x', z: 0, a: 1}\<close>.
\<close>

theorem untracked_props_untouched:
  "(\<exists>r s'. stash payloadObj fc fid s = Inr (r, s')
      \<and> (\<forall>c br j p. stored_value s' c br j p \<noteq> stored_value s c br j p \<longrightarrow>
            (\<exists>node. storage s c = Some node \<and> c = className_of payloadObj fc
               \<and> p \<in> set (dProps node)
               \<and> stored_value s' c br j p = Some (get_prop payloadObj p))))
   \<and> (\<exists>r t'. reassign targetObj fc' fid' s = Inr (r, t', s)
      \<and> ctor_name t' = ctor_name targetObj
      \<and> (\<forall>p. props t' p \<noteq> props targetObj p \<longrightarrow>
            (\<exists>node. storage s (className_of targetObj fc') = Some node
               \<and> p \<in> set (dProps node)
               \<and> props t' p \<noteq> None
               \<and> props t' p = stored_value s (className_of targetObj fc') (currentBranch s)
                                (id_of node targetObj fid') p)))
   \<and> (storage s cls = Some node \<and> keyProp node = ''id'' \<and> set (dProps node) = {''a''}
       \<and> className_of payloadZ fcA = cls
       \<and> props payloadZ = [''id'' \<mapsto> JStr ''x'', ''a'' \<mapsto> JNum 1, ''z'' \<mapsto> JNum 99]
       \<and> className_of targetZ fcT = cls
       \<and> props targetZ = [''id'' \<mapsto> JStr ''x'', ''z'' \<mapsto> JNum 0] \<longrightarrow>
       (\<exists>s'. stash payloadZ fcA None s = Inr (True, s')
          \<and> stored_value s' cls (currentBranch s) (JStr ''x'') ''z''
              = stored_value s cls (currentBranch s) (JStr ''x'') ''z''
          \<and> reassign targetZ fcT None s' =
              Inr (True,
                   targetZ\<lparr>props := [''id'' \<mapsto> JStr ''x'', ''z'' \<mapsto> JNum 0, ''a'' \<mapsto> JNum 1]\<rparr>,
                   s')))"
proof (intro conjI impI)
  show "\<exists>r s'. stash payloadObj fc fid s = Inr (r, s')
      \<and> (\<forall>c br j p. stored_value s' c br j p \<noteq> stored_value s c br j p \<longrightarrow>
            (\<exists>node. storage s c = Some node \<and> c = className_of payloadObj fc
               \<and> p \<in> set (dProps node)
               \<and> stored_value s' c br j p = Some (get_prop payloadObj p)))"
    by (rule stash_frame)
next
  show "\<exists>r t'. reassign targetObj fc' fid' s = Inr (r, t', s)
      \<and> ctor_name t' = ctor_name targetObj
      \<and> (\<forall>p. props t' p \<noteq> props targetObj p \<longrightarrow>
            (\<exists>node. storage s (className_of targetObj fc') = Some node
               \<and> p \<in> set (dProps node)
               \<and> props t' p \<noteq> None
               \<and> props t' p = stored_value s (className_of targetObj fc') (currentBranch s)
                                (id_of node targetObj fid') p))"
    by (rule reassign_frame)
next
  assume h: "storage s cls = Some node \<and> keyProp node = ''id'' \<and> set (dProps node) = {''a''}
       \<and> className_of payloadZ fcA = cls
       \<and> props payloadZ = [''id'' \<mapsto> JStr ''x'', ''a'' \<mapsto> JNum 1, ''z'' \<mapsto> JNum 99]
       \<and> className_of targetZ fcT = cls
       \<and> props targetZ = [''id'' \<mapsto> JStr ''x'', ''z'' \<mapsto> JNum 0]"
  let ?x = "JStr ''x''"
  let ?s' = "stashed_registry s cls node ?x payloadZ"
  have i: "id_of node payloadZ None = ?x"
    using h by (simp add: id_of_def get_prop_def)
  have st: "stash payloadZ fcA None s = Inr (True, ?s')"
    using stash_result [of s payloadZ fcA node None] h i by simp
  have z: "stored_value ?s' cls (currentBranch s) ?x ''z''
      = stored_value s cls (currentBranch s) ?x ''z''"
    using h by (simp add: stored_value_stashed_registry)
  obtain node' where n': "storage ?s' cls = Some node'" "dProps node' = dProps node"
      "keyProp node' = keyProp node"
    using stashed_registry_class [of s cls node ?x payloadZ] by blast
  have i': "id_of node' targetZ None = ?x"
    using h n' by (simp add: id_of_def get_prop_def)
  let ?m = "stashed_props (dProps node) payloadZ (instance_record node (currentBranch s) ?x)"
  have l: "lookup_instance ?s' cls (currentBranch ?s') ?x = Some ?m"
    using h by (simp add: lookup_instance_stashed_registry)
  have m: "assigned_props (dProps node') ?m (props targetZ)
      = [''id'' \<mapsto> JStr ''x'', ''z'' \<mapsto> JNum 0, ''a'' \<mapsto> JNum 1]"
    using h n' by (auto simp: assigned_props_def stashed_props_def get_prop_def fun_eq_iff)
  have re: "reassign targetZ fcT None ?s'
      = Inr (True, targetZ\<lparr>props := [''id'' \<mapsto> JStr ''x'', ''z'' \<mapsto> JNum 0, ''a'' \<mapsto> JNum 1]\<rparr>, ?s')"
    using reassign_hit [of ?s' targetZ fcT node' None ?m] n' h i' l m by simp
  show "\<exists>s'. stash payloadZ fcA None s = Inr (True, s')
          \<and> stored_value s' cls (currentBranch s) (JStr ''x'') ''z''
              = stored_value s cls (currentBranch s) (JStr ''x'') ''z''
          \<and> reassign targetZ fcT None s' =
              Inr (True,
                   targetZ\<lparr>props := [''id'' \<mapsto> JStr ''x'', ''z'' \<mapsto> JNum 0, ''a'' \<mapsto> JNum 1]\<rparr>,
                   s')"
    using st z re by blast
qed

theorem untracked_props_untouched_witness:
  "\<exists>s'. stash \<lparr>ctor_name = ''Hero'',
                 props = [''id'' \<mapsto> JStr ''x'', ''a'' \<mapsto> JNum 1, ''z'' \<mapsto> JNum 99]\<rparr> None None
           (snd (registerClass (ClassName ''Hero'') (DArray [''a'']) None None initial_registry))
          = Inr (True, s')
      \<and> stored_value s' ''Hero'' ''*'' (JStr ''x'') ''z'' = None
      \<and> reassign \<lparr>ctor_name = ''Hero'', props = [''id'' \<mapsto> JStr ''x'', ''z'' \<mapsto> JNum 0]\<rparr>
           None None s'
          = Inr (True,
                 \<lparr>ctor_name = ''Hero'',
                  props = [''id'' \<mapsto> JStr ''x'', ''z'' \<mapsto> JNum 0, ''a'' \<mapsto> JNum 1]\<rparr>,
                 s')"
  using untracked_props_untouched
    [where s = "snd (registerClass (ClassName ''Hero'') (DArray [''a'']) None None initial_registry)"
      and cls = "''Hero''" and node = "new_ClassNode [''a''] Map.empty None None"
      and payloadZ = "\<lparr>ctor_name = ''Hero'',
                 props = [''id'' \<mapsto> JStr ''x'', ''a'' \<mapsto> JNum 1, ''z'' \<mapsto> JNum 99]\<rparr>"
      and fcA = None
      and targetZ = "\<lparr>ctor_name = ''Hero'', props = [''id'' \<mapsto> JStr ''x'', ''z'' \<mapsto> JNum 0]\<rparr>"
      and fcT = None]
  by (auto simp: registerClass_def initial_registry_def new_ClassNode_def new_Set_def set_add_def
      className_of_def stored_value_def lookup_instance_def)

text \<open>
  C10. A stash that stores nothing still creates a hit. For a registered class, a stash
  whose instance id is defined, whose payload defines no tracked property, and for whose
  id the current branch holds no record yet (the branch may be missing too), returns true
  and leaves an empty record for that id in the current branch; the reassign that follows
  for the same class and id returns true and leaves the target as it was.
\<close>

theorem empty_stash_creates_hit:
  assumes "storage s cls = Some node"
    and "className_of payloadObj fc = cls"
    and "id_of node payloadObj fid = i"
    and "i \<noteq> JUndefined"
    and "\<forall>p\<in>set (dProps node). get_prop payloadObj p = JUndefined"
    and "lookup_instance s cls (currentBranch s) i = None"
    and "className_of targetObj fc' = cls"
    and "id_of node targetObj fid' = i"
  shows "\<exists>s'. stash payloadObj fc fid s = Inr (True, s')
           \<and> lookup_instance s' cls (currentBranch s) i = Some Map.empty
           \<and> reassign targetObj fc' fid' s' = Inr (True, targetObj, s')"
proof -
  let ?s' = "stashed_registry s cls node i payloadObj"
  have st: "stash payloadObj fc fid s = Inr (True, ?s')"
    using stash_result [of s payloadObj fc node fid] assms by simp
  have e: "instance_record node (currentBranch s) i = Map.empty"
    using assms
    by (simp add: instance_record_def branch_instances_def lookup_instance_def
        split: option.splits)
  have m: "stashed_props (dProps node) payloadObj Map.empty = Map.empty"
    using assms by (auto simp: stashed_props_def fun_eq_iff)
  have l: "lookup_instance ?s' cls (currentBranch s) i = Some Map.empty"
    using assms by (simp add: lookup_instance_stashed_registry e m)
  obtain node' where n': "storage ?s' cls = Some node'" "dProps node' = dProps node"
      "keyProp node' = keyProp node"
    using stashed_registry_class [of s cls node i payloadObj] by blast
  have i': "id_of node' targetObj fid' = i"
    using assms n' by (auto simp: id_of_def split: option.splits)
  have "reassign targetObj fc' fid' ?s'
      = Inr (True, targetObj\<lparr>props := assigned_props (dProps node') Map.empty (props targetObj)\<rparr>, ?s')"
    using reassign_hit [of ?s' targetObj fc' node' fid' Map.empty] n' assms i' l by simp
  then have "reassign targetObj fc' fid' ?s' = Inr (True, targetObj, ?s')"
    by (simp add: assigned_props_def)
  with st l show ?thesis by blast
qed

theorem empty_stash_creates_hit_witness:
  "\<exists>s'. stash \<lparr>ctor_name = ''Hero'', props = Map.empty\<rparr> None (Some ''x'')
           (snd (registerClass (ClassName ''Hero'') (DArray [''a'']) None None initial_registry))
          = Inr (True, s')
      \<and> lookup_instance s' ''Hero'' ''*'' (JStr ''x'') = Some Map.empty
      \<and> reassign \<lparr>ctor_name = ''Hero'', props = [''id'' \<mapsto> JStr ''x'']\<rparr> None None s'
          = Inr (True, \<lparr>ctor_name = ''Hero'', props = [''id'' \<mapsto> JStr ''x'']\<rparr>, s')"
  using empty_stash_creates_hit
    [where s = "snd (registerClass (ClassName ''Hero'') (DArray [''a'']) None None initial_registry)"
      and cls = "''Hero''" and node = "new_ClassNode [''a''] Map.empty None None"
      and payloadObj = "\<lparr>ctor_name = ''Hero'', props = Map.empty\<rparr>"
      and fc = None and fid = "Some ''x''" and i = "JStr ''x''"
      and targetObj = "\<lparr>ctor_name = ''Hero'', props = [''id'' \<mapsto> JStr ''x'']\<rparr>"
      and fc' = None and fid' = None]
  by (simp add: registerClass_def initial_registry_def new_ClassNode_def new_Set_def set_add_def
      className_of_def id_of_def get_prop_def lookup_instance_def)

end
